theory Spec2Isabelle
  imports Main
begin

section \<open>Python strings\<close>

text \<open>
  A Python \<open>str\<close> is modelled as an Isabelle \<open>string\<close>.  Characters are
  ASCII: the character classes below are those of Python 3 restricted to code points
  below 128 (\<open>str.isspace\<close> and the regular expression class \<open>\s\<close> agree there,
  and so do \<open>\w\<close> and \<open>[A-Za-z0-9_]\<close>).
\<close>

definition isspace :: "char \<Rightarrow> bool" where
  "isspace c = (c \<in> {CHR '' '', CHR 0x09, CHR 0x0A, CHR 0x0B, CHR 0x0C, CHR 0x0D,
                       CHR 0x1C, CHR 0x1D, CHR 0x1E, CHR 0x1F})"

definition isword :: "char \<Rightarrow> bool" where
  "isword c = (let n = (of_char c :: nat) in
     (48 \<le> n \<and> n \<le> 57) \<or> (65 \<le> n \<and> n \<le> 90) \<or> (97 \<le> n \<and> n \<le> 122) \<or> n = 95)"

definition lower :: "char \<Rightarrow> char" where
  "lower c = (let n = (of_char c :: nat) in if 65 \<le> n \<and> n \<le> 90 then char_of (n + 32) else c)"

text \<open>\<open>s.strip()\<close> and \<open>s.strip(chars)\<close>.\<close>

definition strip_with :: "(char \<Rightarrow> bool) \<Rightarrow> string \<Rightarrow> string" where
  "strip_with p s = rev (dropWhile p (rev (dropWhile p s)))"

definition strip :: "string \<Rightarrow> string" where
  "strip s = strip_with isspace s"

definition strip_chars :: "string \<Rightarrow> string \<Rightarrow> string" where
  "strip_chars s chars = strip_with (\<lambda>c. c \<in> set chars) s"

text \<open>\<open>s.startswith(p)\<close>, \<open>s.endswith(p)\<close> and \<open>p in s\<close>.\<close>

definition startswith :: "string \<Rightarrow> string \<Rightarrow> bool" where
  "startswith s p = (take (length p) s = p)"

definition endswith :: "string \<Rightarrow> string \<Rightarrow> bool" where
  "endswith s p = startswith (rev s) (rev p)"

fun str_in :: "string \<Rightarrow> string \<Rightarrow> bool" where
  "str_in p [] = (p = [])"
| "str_in p (c # cs) = (startswith (c # cs) p \<or> str_in p cs)"

text \<open>
  \<open>s.replace(old, new)\<close>: the occurrences of \<open>old\<close> are replaced from left to
  right, without overlap.  For the empty \<open>old\<close> Python puts \<open>new\<close> before every
  character and at the end.
\<close>

function str_replace :: "string \<Rightarrow> string \<Rightarrow> string \<Rightarrow> string" where
  "str_replace s old new =
     (if old = [] then new @ concat (map (\<lambda>c. c # new) s)
      else if s = [] then []
      else if startswith s old then new @ str_replace (drop (length old) s) old new
      else hd s # str_replace (tl s) old new)"
  by pat_completeness auto
termination
  by (relation "measure (\<lambda>(s, old, new). length s)") (auto simp: startswith_def)

text \<open>\<open>s.split(sep)\<close> for a separator of one character.\<close>

fun split_on :: "char \<Rightarrow> string \<Rightarrow> string list" where
  "split_on sep [] = [[]]"
| "split_on sep (c # cs) =
     (if c = sep then [] # split_on sep cs
      else (case split_on sep cs of
              [] \<Rightarrow> [[c]]
            | w # ws \<Rightarrow> (c # w) # ws))"

section \<open>Exceptions\<close>

text \<open>
  An exception is a value.  The constructors name the classes the program raises or
  catches by name; \<open>OtherException\<close> is any other class derived from \<open>Exception\<close>
  (with its class name and message), and the last three are the classes derived from
  \<open>BaseException\<close> only, which \<open>except Exception\<close> does not catch.  A subclass of
  \<open>client.APIError\<close> or of \<open>ValueError\<close> is modelled by the constructor of its
  base class, since the handlers catch by base class.
\<close>

datatype exit_code = CodeNone | CodeInt int | CodeStr string

datatype py_exc =
    APIError string
  | ValueError string
  | ArgumentTypeError string
  | ArgumentError string
  | TypeError string
  | KeyError string
  | AttributeError string
  | StopIteration
  | OtherException string string
  | SystemExit exit_code
  | KeyboardInterrupt
  | OtherBaseException string

fun is_Exception :: "py_exc \<Rightarrow> bool" where
  "is_Exception (SystemExit c) = False"
| "is_Exception KeyboardInterrupt = False"
| "is_Exception (OtherBaseException n) = False"
| "is_Exception e = True"

fun is_api_or_value_error :: "py_exc \<Rightarrow> bool" where
  "is_api_or_value_error (APIError m) = True"
| "is_api_or_value_error (ValueError m) = True"
| "is_api_or_value_error e = False"

fun exc_str :: "py_exc \<Rightarrow> string" where
  "exc_str (APIError m) = m"
| "exc_str (ValueError m) = m"
| "exc_str (ArgumentTypeError m) = m"
| "exc_str (ArgumentError m) = m"
| "exc_str (TypeError m) = m"
| "exc_str (KeyError m) = m"
| "exc_str (AttributeError m) = m"
| "exc_str StopIteration = []"
| "exc_str (OtherException n m) = m"
| "exc_str (SystemExit c) = (case c of CodeStr m \<Rightarrow> m | _ \<Rightarrow> [])"
| "exc_str KeyboardInterrupt = []"
| "exc_str (OtherBaseException n) = []"

section \<open>The identifier validator\<close>

subsection \<open>\<open>int(text, base)\<close>\<close>

text \<open>
  CPython's \<open>int(text, base)\<close> for the bases 2 to 36: surrounding white space
  (of an ASCII text: the six characters of C's \<open>isspace\<close>) is skipped, one
  sign is read, for base 16 a prefix \<open>0x\<close> or \<open>0X\<close> (and one underscore
  after it) is skipped, and then digits follow, single underscores allowed
  between them.  Every other text is a \<open>ValueError\<close>, modelled by \<open>None\<close>.
\<close>

definition c_isspace :: "char \<Rightarrow> bool" where
  "c_isspace c = (c \<in> {CHR '' '', CHR 0x09, CHR 0x0A, CHR 0x0B, CHR 0x0C, CHR 0x0D})"

definition digit_value :: "char \<Rightarrow> nat option" where
  "digit_value c = (let n = (of_char c :: nat) in
     if 48 \<le> n \<and> n \<le> 57 then Some (n - 48)
     else if 97 \<le> n \<and> n \<le> 122 then Some (n - 87)
     else if 65 \<le> n \<and> n \<le> 90 then Some (n - 55)
     else None)"

definition is_digit_of :: "nat \<Rightarrow> char \<Rightarrow> bool" where
  "is_digit_of base c = (case digit_value c of None \<Rightarrow> False | Some d \<Rightarrow> d < base)"

text \<open>
  The digit loop: \<open>prev_us\<close> says that the character before was an underscore,
  \<open>acc\<close> is the value read so far.  The result is the value and the text left.
\<close>

fun scan_digits :: "nat \<Rightarrow> bool \<Rightarrow> int \<Rightarrow> string \<Rightarrow> (int \<times> string) option" where
  "scan_digits base prev_us acc [] = (if prev_us then None else Some (acc, []))"
| "scan_digits base prev_us acc (c # cs) =
     (if c = CHR ''_'' then (if prev_us then None else scan_digits base True acc cs)
      else if is_digit_of base c
        then scan_digits base False (acc * int base + int (the (digit_value c))) cs
      else if prev_us then None else Some (acc, c # cs))"

definition py_int :: "string \<Rightarrow> nat \<Rightarrow> int option" where
  "py_int text base =
     (let s0 = dropWhile c_isspace text;
          neg = (s0 \<noteq> [] \<and> hd s0 = CHR ''-'');
          s1 = (if s0 \<noteq> [] \<and> (hd s0 = CHR ''+'' \<or> hd s0 = CHR ''-'') then tl s0 else s0);
          pre = (base = 16 \<and> (startswith s1 ''0x'' \<or> startswith s1 ''0X''));
          s2 = (if pre then drop 2 s1 else s1);
          s3 = (if pre \<and> s2 \<noteq> [] \<and> hd s2 = CHR ''_'' then tl s2 else s2)
      in if s3 \<noteq> [] \<and> hd s3 = CHR ''_'' then None
         else (case scan_digits base False 0 s3 of
                 None \<Rightarrow> None
               | Some (v, rest) \<Rightarrow>
                   if length rest = length s3 then None
                   else if dropWhile c_isspace rest \<noteq> [] then None
                   else Some (if neg then - v else v)))"

subsection \<open>\<open>uuid.UUID(hex, version=version)\<close>\<close>

text \<open>
  The constructor of the standard library, for the \<open>hex\<close> argument: the prefixes
  \<open>urn:\<close> and \<open>uuid:\<close>, surrounding braces and all hyphens are removed, 32
  characters must be left, and they are read by \<open>int(hex, 16)\<close>.  With a version
  (1 to 5) the variant and version bits of the value are overwritten; they are never
  checked.  The result is the 128-bit value.
\<close>

definition set_version :: "int \<Rightarrow> int \<Rightarrow> int" where
  "set_version i version =
     (let i1 = and i (not (push_bit 48 0xc000));
          i2 = or i1 (push_bit 48 0x8000);
          i3 = and i2 (not (push_bit 64 0xf000))
      in or i3 (push_bit 76 version))"

definition UUID_init :: "string \<Rightarrow> int option \<Rightarrow> py_exc + int" where
  "UUID_init hex version =
     (let h1 = str_replace (str_replace hex ''urn:'' '''') ''uuid:'' '''';
          h2 = str_replace (strip_chars h1 ''{}'') ''-'' ''''
      in if length h2 \<noteq> 32 then Inl (ValueError ''badly formed hexadecimal UUID string'')
         else (case py_int h2 16 of
                 None \<Rightarrow> Inl (ValueError ''invalid literal for int() with base 16'')
               | Some i \<Rightarrow>
                   if \<not> (0 \<le> i \<and> i < 2 ^ 128)
                   then Inl (ValueError ''int is out of range (need a 128-bit value)'')
                   else (case version of
                           None \<Rightarrow> Inr i
                         | Some v \<Rightarrow>
                             if \<not> (1 \<le> v \<and> v \<le> 5)
                             then Inl (ValueError ''illegal version number'')
                             else Inr (set_version i v))))"

subsection \<open>\<open>uuid_type\<close>\<close>

text \<open>
  \<open>uuid_type(uuid_to_test, version=4)\<close>: the text is given to the constructor, a
  \<open>ValueError\<close> becomes an \<open>ArgumentTypeError\<close>, and the text itself is returned
  (\<open>str\<close> of a \<open>str\<close>), never the parsed value.
\<close>

definition uuid_type :: "string \<Rightarrow> int \<Rightarrow> py_exc + string" where
  "uuid_type uuid_to_test version =
     (case UUID_init uuid_to_test (Some version) of
        Inl (ValueError m) \<Rightarrow>
          Inl (ArgumentTypeError (''invalid UUID value: '' @ [CHR 0x27] @ uuid_to_test @ [CHR 0x27]))
      | Inl e \<Rightarrow> Inl e
      | Inr u \<Rightarrow> Inr uuid_to_test)"

section \<open>Values and declared types\<close>

text \<open>
  The Python values the program handles: defaults of parameters, the members of a
  \<open>Literal\<close>, the parsed command-line values and what a client method returns.  A
  float is named by its \<open>repr\<close>; \<open>VObj\<close> is any other object, named by its
  \<open>repr\<close> too.
\<close>

datatype pyval =
    VNone
  | VBool bool
  | VInt int
  | VFloat string
  | VStr string
  | VList "pyval list"
  | VObj string

text \<open>\<open>isinstance(c, int)\<close> (a \<open>bool\<close> is an \<open>int\<close>), \<open>isinstance(c, float)\<close> and
  \<open>isinstance(c, str)\<close>.\<close>

fun isinstance_int :: "pyval \<Rightarrow> bool" where
  "isinstance_int (VInt i) = True"
| "isinstance_int (VBool b) = True"
| "isinstance_int v = False"

fun isinstance_float :: "pyval \<Rightarrow> bool" where
  "isinstance_float (VFloat r) = True"
| "isinstance_float v = False"

fun isinstance_str :: "pyval \<Rightarrow> bool" where
  "isinstance_str (VStr t) = True"
| "isinstance_str v = False"

text \<open>
  An annotation of a parameter, as \<open>inspect.signature\<close> gives it.  \<open>TUnion\<close> is
  \<open>typing.Union[...]\<close> (so \<open>Optional[X]\<close> is \<open>TUnion [X, TNone]\<close>) or \<open>X | Y\<close>,
  with the arguments \<open>typing.get_args\<close> returns; \<open>TGeneric\<close> is any other
  subscripted generic, with its \<open>__name__\<close> and its arguments; \<open>TOther\<close> is any
  other object, with its \<open>__name__\<close>.  The arguments of a \<open>Literal\<close> are values,
  not types: \<open>get_args\<close> shows them as \<open>TValue\<close>.
\<close>

datatype annotation =
    Empty
  | TBool
  | TInt
  | TFloat
  | TStr
  | TNone
  | TUnion "annotation list"
  | TLiteral "pyval list"
  | TGeneric string "annotation list"
  | TOther string
  | TValue pyval

fun get_args :: "annotation \<Rightarrow> annotation list" where
  "get_args (TUnion args) = args"
| "get_args (TLiteral vs) = map TValue vs"
| "get_args (TGeneric n args) = args"
| "get_args t = []"

fun origin_is_Union :: "annotation \<Rightarrow> bool" where
  "origin_is_Union (TUnion args) = True"
| "origin_is_Union t = False"

text \<open>\<open>param_type == typing.Optional[bool]\<close>: two unions are equal when they have the
  same set of arguments.\<close>

fun is_Optional_bool :: "annotation \<Rightarrow> bool" where
  "is_Optional_bool (TUnion args) = (set args = {TBool, TNone})"
| "is_Optional_bool t = False"

text \<open>
  \<open>is_optional(field)\<close> returns the first argument that is not \<open>NoneType\<close>, or
  \<open>False\<close> (here \<open>None\<close>); \<open>next\<close> raises \<open>StopIteration\<close> when every
  argument is \<open>NoneType\<close>.
\<close>

definition is_optional :: "annotation \<Rightarrow> py_exc + annotation option" where
  "is_optional field =
     (if (origin_is_Union field \<and> TNone \<in> set (get_args field))
         \<or> (length (get_args field) > 1 \<and> TNone \<in> set (get_args field))
      then (case filter (\<lambda>a. a \<noteq> TNone) (get_args field) of
              [] \<Rightarrow> Inl StopIteration
            | a # rest \<Rightarrow> Inr (Some a))
      else Inr None)"

section \<open>The argument descriptor of one parameter\<close>

text \<open>
  What \<open>parse_args\<close> installs under the key \<open>type\<close>: the function \<open>uuid_type\<close>,
  or a type object used as a callable.
\<close>

datatype coercion = UuidType | TypeOf annotation

text \<open>
  The dictionary \<open>subcommand_args\<close>, one field for each key the program sets; an
  absent key is \<open>None\<close>.  The key \<open>action\<close> only ever holds
  \<open>argparse.BooleanOptionalAction\<close>.
\<close>

record subcommand_args =
  sa_required :: bool
  sa_default :: "pyval option"
  sa_action :: bool
  sa_type :: "coercion option"
  sa_help :: "string option"
  sa_choices :: "pyval list option"

text \<open>\<open>subcommand_args["type"].__name__\<close>; a plain value has no such attribute.\<close>

fun type_name :: "coercion \<Rightarrow> py_exc + string" where
  "type_name UuidType = Inr ''uuid_type''"
| "type_name (TypeOf TBool) = Inr ''bool''"
| "type_name (TypeOf TInt) = Inr ''int''"
| "type_name (TypeOf TFloat) = Inr ''float''"
| "type_name (TypeOf TStr) = Inr ''str''"
| "type_name (TypeOf TNone) = Inr ''NoneType''"
| "type_name (TypeOf Empty) = Inr ''_empty''"
| "type_name (TypeOf (TUnion args)) =
     Inr (if TNone \<in> set args \<and> length args = 2 then ''Optional'' else ''Union'')"
| "type_name (TypeOf (TLiteral vs)) = Inr ''Literal''"
| "type_name (TypeOf (TGeneric n args)) = Inr n"
| "type_name (TypeOf (TOther n)) = Inr n"
| "type_name (TypeOf (TValue v)) = Inl (AttributeError ''__name__'')"

text \<open>
  The chain of tests on the declared type (the \<open>if\<close> ... \<open>elif\<close> of the parameter
  loop).  The result is the \<open>action\<close> flag, the \<open>type\<close> and the choices read from
  a \<open>Literal\<close>.
\<close>

definition literal_type :: "pyval list \<Rightarrow> coercion option" where
  "literal_type choices =
     (if list_all isinstance_int choices then Some (TypeOf TInt)
      else if list_all isinstance_float choices then Some (TypeOf TFloat)
      else if list_all isinstance_str choices then Some (TypeOf TStr)
      else None)"

definition infer_type ::
  "string \<Rightarrow> annotation \<Rightarrow> py_exc + (bool \<times> coercion option \<times> pyval list option)" where
  "infer_type param param_type =
     (if param_type = Empty then Inr (False, None, None)
      else if param_type = TBool \<or> is_Optional_bool param_type then Inr (True, None, None)
      else if param_type = TStr \<and> endswith param ''_id'' then Inr (False, Some UuidType, None)
      else if param_type \<in> {TInt, TFloat, TStr} then Inr (False, Some (TypeOf param_type), None)
      else (case is_optional param_type of
              Inl e \<Rightarrow> Inl e
            | Inr (Some inner) \<Rightarrow> Inr (False, Some (TypeOf inner), None)
            | Inr None \<Rightarrow>
                (case param_type of
                   TLiteral vs \<Rightarrow> Inr (False, literal_type vs, Some vs)
                 | _ \<Rightarrow> Inr (False, None, None))))"

subsection \<open>The pattern on the help text\<close>

text \<open>
  \<open>re.match(r".*one of \(?\s?((?:'?\w+'?,?\s?)+)", text, re.I)\<close>, by its parts.
  \<open>item\<close> is one round of the group \<open>'?\w+'?,?\s?\<close> at the start of a text and
  returns the text left: the round needs a word character after the optional quote,
  and everything after the word is optional and taken when it is there.
\<close>

definition opt_char :: "(char \<Rightarrow> bool) \<Rightarrow> string \<Rightarrow> string" where
  "opt_char p t = (if t \<noteq> [] \<and> p (hd t) then tl t else t)"

definition item :: "string \<Rightarrow> string option" where
  "item t =
     (let t1 = opt_char (\<lambda>c. c = CHR 0x27) t
      in if takeWhile isword t1 = [] then None
         else Some (opt_char isspace
                     (opt_char (\<lambda>c. c = CHR '','')
                       (opt_char (\<lambda>c. c = CHR 0x27) (dropWhile isword t1)))))"

text \<open>
  The repetition is greedy and nothing follows it in the pattern, so the match takes
  rounds as long as a round matches.  \<open>items t\<close> is the text left after them.  (A
  round always takes a character; the test on the lengths only shows the recursion
  to end.)
\<close>

function items :: "string \<Rightarrow> string" where
  "items t =
     (case item t of
        None \<Rightarrow> t
      | Some r \<Rightarrow> if length r < length t then items r else r)"
  by pat_completeness auto
termination
  by (relation "measure length") auto

text \<open>
  The pattern after \<open>.*\<close>, at the start of a text: the words \<open>one of\<close> and a
  space, in any case, an optional parenthesis, an optional white space, and at least
  one round.  The result is group 1.
\<close>

definition one_of_here :: "string \<Rightarrow> string option" where
  "one_of_here t =
     (if length t \<ge> 7 \<and> map lower (take 7 t) = ''one of ''
      then (let r = opt_char isspace (opt_char (\<lambda>c. c = CHR ''('') (drop 7 t))
            in if item r = None then None
               else Some (take (length r - length (items r)) r))
      else None)"

text \<open>
  \<open>.*\<close> is greedy and does not cross a line feed: the rest of the pattern is tried
  after the longest prefix first.
\<close>

fun try_from :: "nat \<Rightarrow> string \<Rightarrow> string option" where
  "try_from 0 text = one_of_here text"
| "try_from (Suc i) text =
     (case one_of_here (drop (Suc i) text) of
        Some g \<Rightarrow> Some g
      | None \<Rightarrow> try_from i text)"

definition one_of_match :: "string \<Rightarrow> string option" where
  "one_of_match text = try_from (length (takeWhile (\<lambda>c. c \<noteq> CHR 0x0A) text)) text"

text \<open>\<open>[s.strip() for s in match.group(1).replace("'", "").split(",")]\<close>\<close>

definition help_choices :: "string \<Rightarrow> string list" where
  "help_choices g = map strip (split_on CHR '','' (str_replace g [CHR 0x27] ''''))"

subsection \<open>Signatures and docstrings\<close>

text \<open>
  What \<open>inspect\<close> shows of a method of the client class: the parameters of its
  signature in order (name, annotation, default; no default is \<open>None\<close>) and its
  docstring.  \<open>inspect.getmembers\<close> gives the methods as pairs of name and function.
\<close>

record py_parameter =
  p_name :: string
  p_annotation :: annotation
  p_default :: "pyval option"

record py_function =
  fn_parameters :: "py_parameter list"
  fn_doc :: "string option"

definition cmd_arg_to_api_arg :: "string \<Rightarrow> string" where
  "cmd_arg_to_api_arg cmd = str_replace cmd ''-'' ''_''"

definition api_arg_to_cmd_arg :: "string \<Rightarrow> string" where
  "api_arg_to_cmd_arg fn = str_replace fn ''_'' ''-''"

definition docstring_lines :: "string option \<Rightarrow> string list" where
  "docstring_lines doc =
     (case doc of
        None \<Rightarrow> []
      | Some text \<Rightarrow>
          if text = [] then []
          else map (\<lambda>d. str_replace (strip d) ''%'' ''%%'')
                 (filter (\<lambda>d. length (strip d) \<noteq> 0) (split_on (CHR 0x0A) text)))"

definition cmd_help :: "string list \<Rightarrow> string option" where
  "cmd_help lines =
     map_option strip
       (find (\<lambda>d. \<not> str_in ''beta'' d \<and> \<not> str_in ''experimental'' d) lines)"

subsection \<open>One parameter\<close>

text \<open>\<open>not choices\<close> and \<open>if choices\<close>: \<open>None\<close> and the empty tuple are false.\<close>

definition truthy :: "pyval list option \<Rightarrow> bool" where
  "truthy choices = (case choices of None \<Rightarrow> False | Some cs \<Rightarrow> cs \<noteq> [])"

text \<open>
  The help text and the choices read from it: the first docstring line that starts
  with the parameter's name, split at the colons.  Only when there are two parts and
  no choices yet, the second part (with the name of the type in brackets, when a
  type was set) becomes the help text and is searched for the pattern.
\<close>

definition type_suffix :: "coercion option \<Rightarrow> py_exc + string" where
  "type_suffix ty =
     (case ty of
        None \<Rightarrow> Inr []
      | Some t \<Rightarrow> (case type_name t of Inl e \<Rightarrow> Inl e | Inr n \<Rightarrow> Inr ('' ['' @ n @ '']'')))"

definition describe ::
  "string \<Rightarrow> string list \<Rightarrow> coercion option \<Rightarrow> pyval list option
     \<Rightarrow> py_exc + (string option \<times> pyval list option)" where
  "describe param lines ty choices =
     (case find (\<lambda>line. startswith line param) lines of
        None \<Rightarrow> Inr (None, choices)
      | Some param_doc_line \<Rightarrow>
          (let split = split_on CHR '':'' param_doc_line
           in if length split \<ge> 2 \<and> \<not> truthy choices
              then (case type_suffix ty of
                      Inl e \<Rightarrow> Inl e
                    | Inr suffix \<Rightarrow>
                        (let text = strip (split ! 1) @ suffix
                         in (case one_of_match text of
                               None \<Rightarrow> Inr (Some text, choices)
                             | Some g \<Rightarrow> Inr (Some text, Some (map VStr (help_choices g))))))
              else Inr (None, choices)))"

text \<open>
  The body of the parameter loop up to the flags.  The debug message about the
  choices joins them with commas as it is built, which raises \<open>TypeError\<close> on a
  choice that is not a string.  The other log records of \<open>parse_args\<close> are no part
  of the registry and are left out.
\<close>

definition build_args :: "string list \<Rightarrow> py_parameter \<Rightarrow> py_exc + subcommand_args" where
  "build_args lines p =
     (let param = p_name p;
          default = p_default p;
          param_has_default = (default \<noteq> None);
          param_is_required = (\<not> param_has_default)
      in (case infer_type param (p_annotation p) of
            Inl e \<Rightarrow> Inl e
          | Inr (action, ty, choices0) \<Rightarrow>
              (case describe param lines ty choices0 of
                 Inl e \<Rightarrow> Inl e
               | Inr (text, choices) \<Rightarrow>
                   if truthy choices \<and> \<not> list_all isinstance_str (the choices)
                   then Inl (TypeError ''sequence item: expected str instance'')
                   else Inr \<lparr> sa_required = param_is_required,
                              sa_default = (if param_has_default then default else None),
                              sa_action = action,
                              sa_type = ty,
                              sa_help = text,
                              sa_choices = (if truthy choices then choices else None) \<rparr>)))"

definition name_or_flags :: "bool \<Rightarrow> string \<Rightarrow> string list" where
  "name_or_flags parameters_have_different_initials param =
     [''--'' @ api_arg_to_cmd_arg param]
     @ (if parameters_have_different_initials \<and> hd param \<noteq> CHR ''v'' \<and> hd param \<noteq> CHR ''h''
        then [''-'' @ [hd param]] else [])"

subsection \<open>One sub-command\<close>

text \<open>
  An argument of a sub-parser, as \<open>add_argument\<close> got it, and the sub-parser of a
  command.  The option \<open>--verbose\<close>/\<open>-v\<close> (a count, default 0) and \<open>-h\<close>/\<open>--help\<close>
  are on every sub-parser.
\<close>

record argument =
  arg_flags :: "string list"
  arg_dest :: string
  arg_args :: subcommand_args

record subcommand =
  sc_name :: string
  sc_help :: "string option"
  sc_arguments :: "argument list"

text \<open>What the registry records for a parameter:
  \<open>subcommand_args.get("type", subcommand_args.get("action", None))\<close>.\<close>

datatype marker = MType coercion | MAction | MNone

definition marker_of :: "subcommand_args \<Rightarrow> marker" where
  "marker_of sa =
     (case sa_type sa of
        Some t \<Rightarrow> MType t
      | None \<Rightarrow> if sa_action sa then MAction else MNone)"

text \<open>\<open>d[k] = v\<close> on a dictionary kept as the list of its items, in insertion order.\<close>

fun dict_set :: "(string \<times> 'v) list \<Rightarrow> string \<Rightarrow> 'v \<Rightarrow> (string \<times> 'v) list" where
  "dict_set [] k v = [(k, v)]"
| "dict_set ((k', v') # d) k v = (if k' = k then (k, v) # d else (k', v') # dict_set d k v)"

text \<open>
  The option strings of an action: \<open>BooleanOptionalAction\<close> adds \<open>--no-x\<close> to every
  \<open>--x\<close>.  \<open>add_argument\<close> raises \<open>ArgumentError\<close> on an option string that the
  sub-parser already has.
\<close>

definition option_strings :: "argument \<Rightarrow> string list" where
  "option_strings a =
     (if sa_action (arg_args a)
      then concat (map (\<lambda>f. if startswith f ''--'' then [f, ''--no-'' @ drop 2 f] else [f])
                    (arg_flags a))
      else arg_flags a)"

definition reserved_option_strings :: "string list" where
  "reserved_option_strings = [''-h'', ''--help'', ''--verbose'', ''-v'']"

text \<open>
  The parameter loop: the state is the option strings taken, the arguments added and
  the entry of \<open>commands_map\<close> for the command.
\<close>

fun add_parameters ::
  "string list \<Rightarrow> bool \<Rightarrow> py_parameter list
     \<Rightarrow> string list \<times> argument list \<times> (string \<times> marker) list
     \<Rightarrow> py_exc + (string list \<times> argument list \<times> (string \<times> marker) list)" where
  "add_parameters lines diff [] state = Inr state"
| "add_parameters lines diff (p # ps) (taken, arguments, entry) =
     (case build_args lines p of
        Inl e \<Rightarrow> Inl e
      | Inr sa \<Rightarrow>
          (let a = \<lparr> arg_flags = name_or_flags diff (p_name p),
                     arg_dest = p_name p,
                     arg_args = sa \<rparr>
           in if \<exists>f \<in> set (option_strings a). f \<in> set taken
              then Inl (ArgumentError ''conflicting option string'')
              else add_parameters lines diff ps
                     (taken @ option_strings a,
                      arguments @ [a],
                      dict_set entry (p_name p) (marker_of sa))))"

text \<open>
  The body of the loop over the members, for a public method.  An empty parameter
  name has no first character (\<open>p[0]\<close> raises \<open>IndexError\<close>), and
  \<open>add_parser\<close> raises \<open>ArgumentError\<close> on a name that is a sub-parser already
  (\<open>existing\<close>).
\<close>

definition build_command ::
  "string list \<Rightarrow> string \<Rightarrow> py_function \<Rightarrow> py_exc + (subcommand \<times> (string \<times> marker) list)" where
  "build_command existing name fn =
     (let parameters = filter (\<lambda>p. p_name p \<noteq> ''self'') (fn_parameters fn)
      in if \<exists>p \<in> set parameters. p_name p = []
         then Inl (OtherException ''IndexError'' ''string index out of range'')
         else (let param_initials = map (\<lambda>p. hd (p_name p)) parameters;
                   parameters_have_different_initials =
                     (length (remdups param_initials) = length param_initials);
                   lines = docstring_lines (fn_doc fn);
                   subcommand_name = api_arg_to_cmd_arg name
               in if subcommand_name \<in> set existing
                  then Inl (ArgumentError ''conflicting subparser'')
                  else (case add_parameters lines parameters_have_different_initials parameters
                              (reserved_option_strings, [], []) of
                          Inl e \<Rightarrow> Inl e
                        | Inr (taken, arguments, entry) \<Rightarrow>
                            Inr (\<lparr> sc_name = subcommand_name,
                                   sc_help = cmd_help lines,
                                   sc_arguments = arguments \<rparr>,
                                 entry))))"

subsection \<open>The registry\<close>

text \<open>
  The parser built by one call of \<open>parse_args\<close> (its sub-parsers, in the order they
  were added) and the module's dictionary \<open>commands_map\<close>, which outlives the call.
  Members whose name starts with an underscore are skipped.
\<close>

type_synonym commands_map = "string \<Rightarrow> (string \<times> marker) list option"

fun build_members ::
  "(string \<times> py_function) list \<Rightarrow> subcommand list \<times> commands_map
     \<Rightarrow> py_exc + (subcommand list \<times> commands_map)" where
  "build_members [] state = Inr state"
| "build_members ((name, fn) # ms) (subparsers, cm) =
     (if startswith name ''_'' then build_members ms (subparsers, cm)
      else (case build_command (map sc_name subparsers) name fn of
              Inl e \<Rightarrow> Inl e
            | Inr (sc, entry) \<Rightarrow>
                build_members ms (subparsers @ [sc], cm(sc_name sc \<mapsto> entry))))"

definition build_registry ::
  "(string \<times> py_function) list \<Rightarrow> commands_map \<Rightarrow> py_exc + (subcommand list \<times> commands_map)" where
  "build_registry members cm = build_members members ([], cm)"

section \<open>Parsing the options of a sub-command\<close>


type_synonym namespace = "(string \<times> pyval) list"














section \<open>The dispatcher\<close>

subsection \<open>Logging\<close>

text \<open>
  The module's logger has its own level (0 is \<open>NOTSET\<close>) and the root logger's
  level behind it; \<open>logging.basicConfig(level=logging.CRITICAL)\<close> at import sets the
  latter.  A record is emitted when its level reaches the effective level.
\<close>

definition DEBUG :: nat where "DEBUG = 10"
definition INFO :: nat where "INFO = 20"
definition WARNING :: nat where "WARNING = 30"
definition ERROR :: nat where "ERROR = 40"
definition CRITICAL :: nat where "CRITICAL = 50"

record log_state =
  logger_level :: nat
  root_level :: nat

definition initial_log :: log_state where
  "initial_log = \<lparr> logger_level = 0, root_level = CRITICAL \<rparr>"

definition effective_level :: "log_state \<Rightarrow> nat" where
  "effective_level st = (if logger_level st \<noteq> 0 then logger_level st else root_level st)"

datatype log_msg =
    MsgLoggingLevel nat
  | MsgHandlingCommand
  | MsgMissingKey
  | MsgParameters
  | MsgInstanciated
  | MsgExecuting string "(string \<times> pyval) list"
  | MsgReturned
  | MsgNothing
  | MsgApiError py_exc
  | MsgException py_exc

text \<open>What the dispatcher does to the world, in order.\<close>

datatype event =
    SetLevel nat
  | Emit nat log_msg
  | NewClient
  | GetMethod string
  | CallMethod string "(string \<times> pyval) list"
  | ListPage
  | PPrint pyval
  | PrintHelp
  | PrintVersion

definition emit :: "log_state \<Rightarrow> nat \<Rightarrow> log_msg \<Rightarrow> event list" where
  "emit st level msg = (if level \<ge> effective_level st then [Emit level msg] else [])"

subsection \<open>The client\<close>

text \<open>
  The client library is not the program's: \<open>APIClient()\<close> may raise (it reads the
  environment), an attribute may be missing, and a method, called with keyword
  arguments, raises or returns \<open>None\<close>, a \<open>client.ResultsPage\<close> (whose listing
  raises or gives the items) or another value.
\<close>

datatype py_result = RNone | RValue pyval | RPage "py_exc + pyval list"

type_synonym environ = "string \<Rightarrow> string option"

record api_client =
  cl_new :: "environ \<Rightarrow> py_exc option"
  cl_getattr :: "string \<Rightarrow> ((string \<times> pyval) list \<Rightarrow> py_exc + py_result) option"

subsection \<open>\<open>_handle_command\<close>\<close>

text \<open>The namespace the dispatcher gets: \<open>options.command\<close>, \<open>options.verbose\<close> and
  the other attributes.\<close>

record options =
  opt_command :: pyval
  opt_verbose :: nat
  opt_attrs :: namespace

definition apply_verbosity :: "nat \<Rightarrow> log_state \<Rightarrow> event list \<times> log_state" where
  "apply_verbosity verbose st =
     (if verbose \<noteq> 0
      then (if verbose \<ge> 3 then ([SetLevel DEBUG], st\<lparr>logger_level := DEBUG\<rparr>)
            else if verbose = 2 then ([SetLevel INFO], st\<lparr>logger_level := INFO\<rparr>)
            else if verbose = 1 then ([SetLevel WARNING], st\<lparr>logger_level := WARNING\<rparr>)
            else ([], st))
      else ([], st))"

text \<open>\<open>"\033[91m%s\033[00m" % err\<close>\<close>

definition red :: "string \<Rightarrow> string" where
  "red err = [CHR 0x1B] @ ''[91m'' @ err @ [CHR 0x1B] @ ''[00m''"

definition missing_key_message :: string where
  "missing_key_message =
     ''Missing '' @ [CHR 0x27] @ ''PICTERRA_API_KEY'' @ [CHR 0x27] @ '' environment variable''"

text \<open>\<open>getattr(options, param)\<close> and
  \<open>{param: getattr(options, param) for param in param_names}\<close>\<close>

definition getattr_options :: "options \<Rightarrow> string \<Rightarrow> pyval option" where
  "getattr_options opts param =
     (if param = ''command'' then Some (opt_command opts)
      else if param = ''verbose'' then Some (VInt (int (opt_verbose opts)))
      else map_of (opt_attrs opts) param)"

fun collect_args ::
  "options \<Rightarrow> string list \<Rightarrow> (string \<times> pyval) list \<Rightarrow> py_exc + (string \<times> pyval) list" where
  "collect_args opts [] args = Inr args"
| "collect_args opts (param # params) args =
     (case getattr_options opts param of
        None \<Rightarrow> Inl (AttributeError param)
      | Some v \<Rightarrow> collect_args opts params (dict_set args param v))"

text \<open>The body of the \<open>try\<close>: the exception it ends with, if any, and its events.\<close>

definition try_body ::
  "api_client \<Rightarrow> log_state \<Rightarrow> string \<Rightarrow> string list \<Rightarrow> options
     \<Rightarrow> py_exc option \<times> event list" where
  "try_body client st command_name param_names opts =
     (let method_name = cmd_arg_to_api_arg command_name
      in (case cl_getattr client method_name of
            None \<Rightarrow> (Some (AttributeError method_name), [GetMethod method_name])
          | Some method \<Rightarrow>
              (case collect_args opts param_names [] of
                 Inl e \<Rightarrow> (Some e, [GetMethod method_name])
               | Inr args \<Rightarrow>
                   (let ev = [GetMethod method_name]
                             @ emit st INFO (MsgExecuting command_name args)
                             @ [CallMethod method_name args]
                    in (case method args of
                          Inl e \<Rightarrow> (Some e, ev)
                        | Inr RNone \<Rightarrow> (None, ev @ emit st INFO MsgNothing)
                        | Inr (RValue v) \<Rightarrow> (None, ev @ emit st INFO MsgReturned @ [PPrint v])
                        | Inr (RPage page) \<Rightarrow>
                            (case page of
                               Inl e \<Rightarrow> (Some e, ev @ emit st INFO MsgReturned @ [ListPage])
                             | Inr vs \<Rightarrow>
                                 (None, ev @ emit st INFO MsgReturned
                                           @ [ListPage, PPrint (VList vs)])))))))"

text \<open>
  \<open>commands_map[command_name]\<close>: \<open>KeyError\<close> for a name that is no key
  (\<open>TypeError\<close> for a list, which cannot be a key).
\<close>

definition lookup_command ::
  "commands_map \<Rightarrow> pyval \<Rightarrow> py_exc + (string \<times> (string \<times> marker) list)" where
  "lookup_command cm command =
     (case command of
        VStr c \<Rightarrow> (case cm c of None \<Rightarrow> Inl (KeyError c) | Some entry \<Rightarrow> Inr (c, entry))
      | VList vs \<Rightarrow> Inl (TypeError ''unhashable type'')
      | _ \<Rightarrow> Inl (KeyError []))"

text \<open>
  The handlers of the \<open>try\<close>: an API error or a value error is logged and turned
  into \<open>sys.exit\<close> with its text; any other \<open>Exception\<close> is logged at the critical
  level and dropped; what is not an \<open>Exception\<close> passes.
\<close>

definition handle_raised ::
  "log_state \<Rightarrow> py_exc option \<Rightarrow> py_exc option \<times> event list" where
  "handle_raised st raised =
     (case raised of
        None \<Rightarrow> (None, [])
      | Some err \<Rightarrow>
          if is_api_or_value_error err
          then (Some (SystemExit (CodeStr (red (exc_str err)))), emit st ERROR (MsgApiError err))
          else if is_Exception err
          then (None, emit st CRITICAL (MsgException err))
          else (Some err, []))"

text \<open>
  The dispatcher: the exception it leaves with (\<open>None\<close> when it returns), its
  events, and the logging state after it.
\<close>

definition handle_command ::
  "environ \<Rightarrow> commands_map \<Rightarrow> api_client \<Rightarrow> log_state \<Rightarrow> options
     \<Rightarrow> py_exc option \<times> event list \<times> log_state" where
  "handle_command env cm client st0 opts =
     (let (ev0, st) = apply_verbosity (opt_verbose opts) st0;
          ev1 = ev0 @ emit st DEBUG (MsgLoggingLevel (logger_level st))
                    @ emit st DEBUG MsgHandlingCommand
      in if env ''PICTERRA_API_KEY'' = None
         then (Some (SystemExit (CodeStr (red missing_key_message))),
               ev1 @ emit st ERROR MsgMissingKey, st)
         else (case lookup_command cm (opt_command opts) of
                 Inl e \<Rightarrow> (Some e, ev1, st)
               | Inr (command_name, entry) \<Rightarrow>
                   (let param_names = map fst entry;
                        ev2 = ev1 @ emit st DEBUG MsgParameters @ [NewClient]
                    in (case cl_new client env of
                          Some e \<Rightarrow> (Some e, ev2, st)
                        | None \<Rightarrow>
                            (let ev3 = ev2 @ emit st DEBUG MsgInstanciated;
                                 (raised, ev4) = try_body client st command_name param_names opts;
                                 (left, ev5) = handle_raised st raised
                             in (left, ev3 @ ev4 @ ev5, st))))))"

text \<open>
  The status the process ends with: 0 after a normal return; for \<open>SystemExit\<close> its
  code (a text is printed and the status is 1); 1 after any other exception.
\<close>

fun exit_status :: "py_exc option \<Rightarrow> int" where
  "exit_status None = 0"
| "exit_status (Some (SystemExit CodeNone)) = 0"
| "exit_status (Some (SystemExit (CodeInt n))) = n"
| "exit_status (Some (SystemExit (CodeStr m))) = 1"
| "exit_status (Some e) = 1"

section \<open>\<open>parse_args\<close>\<close>



section \<open>Notions of the specification\<close>

text \<open>
  A hexadecimal digit, in either case, and the canonical hyphenated form of a
  128-bit identifier: five groups of 8, 4, 4, 4 and 12 hexadecimal digits, separated
  by hyphens.  Nothing is asked of the version or variant digits.
\<close>

definition is_hexdigit :: "char \<Rightarrow> bool" where
  "is_hexdigit c = (let n = (of_char c :: nat) in
     (48 \<le> n \<and> n \<le> 57) \<or> (65 \<le> n \<and> n \<le> 70) \<or> (97 \<le> n \<and> n \<le> 102))"


text \<open>The events that touch the client.\<close>

fun client_event :: "event \<Rightarrow> bool" where
  "client_event NewClient = True"
| "client_event (GetMethod m) = True"
| "client_event (CallMethod m args) = True"
| "client_event ListPage = True"
| "client_event e = False"

text \<open>The public members of the client class, and the names of their commands.\<close>

definition public_members :: "(string \<times> py_function) list \<Rightarrow> (string \<times> py_function) list" where
  "public_members members = filter (\<lambda>(name, fn). \<not> startswith name ''_'') members"

definition command_names :: "(string \<times> py_function) list \<Rightarrow> string list" where
  "command_names members = map (\<lambda>(name, fn). api_arg_to_cmd_arg name) (public_members members)"

section \<open>Example signatures\<close>

text \<open>
  Signatures in the style of the client library, used to run the definitions:
  a creation method with an optional string and an integer with a default, and a
  method with two identifiers.
\<close>

definition create_detector :: py_function where
  "create_detector =
     \<lparr> fn_parameters =
         [\<lparr> p_name = ''self'', p_annotation = Empty, p_default = None \<rparr>,
          \<lparr> p_name = ''name'', p_annotation = TUnion [TStr, TNone], p_default = None \<rparr>,
          \<lparr> p_name = ''tile_size'', p_annotation = TInt, p_default = Some (VInt 256) \<rparr>],
       fn_doc = None \<rparr>"

definition create_detector_command :: subcommand where
  "create_detector_command =
     \<lparr> sc_name = ''create-detector'', sc_help = None,
       sc_arguments =
         [\<lparr> arg_flags = [''--name'', ''-n''], arg_dest = ''name'',
             arg_args = \<lparr> sa_required = True, sa_default = None, sa_action = False,
                          sa_type = Some (TypeOf TStr), sa_help = None, sa_choices = None \<rparr> \<rparr>,
          \<lparr> arg_flags = [''--tile-size'', ''-t''], arg_dest = ''tile_size'',
             arg_args = \<lparr> sa_required = False, sa_default = Some (VInt 256), sa_action = False,
                          sa_type = Some (TypeOf TInt), sa_help = None, sa_choices = None \<rparr> \<rparr>] \<rparr>"

text \<open>Single parameters: an integer, a closed enumeration of strings, and strings.\<close>

definition count_param :: py_parameter where
  "count_param = \<lparr> p_name = ''count'', p_annotation = TInt, p_default = Some (VInt 1) \<rparr>"




section \<open>Properties of the string operations\<close>

declare str_replace.simps [simp del]

lemma str_replace_Nil: "old \<noteq> [] \<Longrightarrow> str_replace [] old new = []"
  by (simp add: str_replace.simps)

lemma str_replace_Cons:
  "old \<noteq> [] \<Longrightarrow> str_replace (c # s) old new =
     (if startswith (c # s) old then new @ str_replace (drop (length old) (c # s)) old new
      else c # str_replace s old new)"
  by (subst str_replace.simps) simp

lemma str_replace_absent:
  assumes "old \<noteq> []" and "hd old \<notin> set s"
  shows "str_replace s old new = s"
  using assms(2)
proof (induction s)
  case Nil
  show ?case using assms(1) by (simp add: str_replace_Nil)
next
  case (Cons c cs)
  have "\<not> startswith (c # cs) old"
    using Cons.prems assms(1) by (cases old) (auto simp: startswith_def)
  then show ?case using Cons assms(1) by (simp add: str_replace_Cons)
qed


lemma str_replace_delete: "str_replace s [c] [] = filter (\<lambda>x. x \<noteq> c) s"
  by (induction s) (auto simp: str_replace_Nil str_replace_Cons startswith_def)

lemma dropWhile_none: "\<forall>x\<in>set s. \<not> p x \<Longrightarrow> dropWhile p s = s"
  by (cases s) auto

lemma strip_with_id: "\<forall>x\<in>set s. \<not> p x \<Longrightarrow> strip_with p s = s"
  by (simp add: strip_with_def dropWhile_none)

lemma strip_with_around:
  assumes "\<forall>x\<in>set s. \<not> p x" and "\<forall>x\<in>set a. p x" and "\<forall>x\<in>set b. p x" and "s \<noteq> []"
  shows "strip_with p (a @ s @ b) = s"
proof -
  obtain c cs where s: "s = c # cs" using assms(4) by (cases s) auto
  have 1: "dropWhile p (a @ s @ b) = s @ b"
    using assms(1,2) s by (simp add: dropWhile_append)
  have "dropWhile p (rev b @ rev s) = dropWhile p (rev s)"
    using assms(3) by (simp add: dropWhile_append)
  also have "\<dots> = rev s"
    using assms(1) by (intro dropWhile_none) simp
  finally show ?thesis using 1 by (simp add: strip_with_def)
qed

lemma concat_split_on: "concat (split_on c s) = filter (\<lambda>x. x \<noteq> c) s"
  by (induction s) (auto split: list.splits)



section \<open>Properties of the identifier validator\<close>

lemma hexdigit_digit: "is_hexdigit c \<Longrightarrow> \<exists>d. digit_value c = Some d \<and> d < 16"
  by (auto simp: is_hexdigit_def digit_value_def Let_def)

lemma hexdigit_not:
  assumes "is_hexdigit c"
  shows "c \<noteq> CHR ''_''" "c \<noteq> CHR ''+''" "c \<noteq> CHR ''-''" "c \<noteq> CHR ''x''" "c \<noteq> CHR ''X''"
    "c \<noteq> CHR ''u''" "c \<noteq> CHR ''{''" "c \<noteq> CHR ''}''" "\<not> c_isspace c"
  using assms by (auto simp: is_hexdigit_def c_isspace_def)

lemma scan_digits_hex:
  assumes "list_all is_hexdigit s" and "s \<noteq> [] \<or> \<not> pu" and "0 \<le> acc"
  shows "\<exists>v. scan_digits 16 pu acc s = Some (v, []) \<and> 0 \<le> v \<and> v < (acc + 1) * 16 ^ length s"
  using assms
proof (induction s arbitrary: pu acc)
  case Nil
  then show ?case by simp
next
  case (Cons c cs)
  from Cons.prems(1) have hc: "is_hexdigit c" and hcs: "list_all is_hexdigit cs" by auto
  from hexdigit_digit[OF hc] obtain d where d: "digit_value c = Some d" "d < 16" by blast
  let ?acc = "acc * 16 + int d"
  have acc': "0 \<le> ?acc" using Cons.prems(3) by simp
  from Cons.IH[OF hcs _ acc', of False] obtain v where
    v: "scan_digits 16 False ?acc cs = Some (v, [])" "0 \<le> v" "v < (?acc + 1) * 16 ^ length cs"
    by auto
  define P where "P = (16::int) ^ length cs"
  have le1: "?acc + 1 \<le> (acc + 1) * 16" using d(2) by simp
  have "(?acc + 1) * P \<le> ((acc + 1) * 16) * P"
    by (rule mult_right_mono[OF le1]) (simp add: P_def)
  moreover have "v < (?acc + 1) * P" using v(3) by (simp only: P_def)
  ultimately have "v < ((acc + 1) * 16) * P" by (rule less_le_trans[rotated])
  moreover have "(acc + 1) * 16 ^ length (c # cs) = ((acc + 1) * 16) * P"
    by (simp add: P_def)
  ultimately have bound: "v < (acc + 1) * 16 ^ length (c # cs)" by (simp only:)
  have step: "scan_digits 16 pu acc (c # cs) = scan_digits 16 False ?acc cs"
    using hexdigit_not(1)[OF hc] d by (simp add: is_digit_of_def)
  show ?case using step v(1,2) bound by simp
qed

lemma py_int_hex:
  assumes "list_all is_hexdigit s" and "s \<noteq> []"
  shows "\<exists>v. py_int s 16 = Some v \<and> 0 \<le> v \<and> v < 16 ^ length s"
proof -
  obtain c cs where s: "s = c # cs" using assms(2) by (cases s) auto
  have hc: "is_hexdigit c" using assms(1) s by simp
  have d0: "dropWhile c_isspace s = s" using hexdigit_not(9)[OF hc] s by simp
  have nopre: "\<not> startswith s ''0x''" "\<not> startswith s ''0X''"
    using assms(1) s hexdigit_not(4,5) by (cases cs; auto simp: startswith_def)+
  from scan_digits_hex[OF assms(1), of False 0] obtain v where
    v: "scan_digits 16 False 0 s = Some (v, [])" "0 \<le> v" "v < 16 ^ length s" by auto
  show ?thesis
    using v d0 nopre hexdigit_not(1,2,3)[OF hc] s
    by (simp add: py_int_def Let_def)
qed

text \<open>The constructor accepts a text from which its clean-up leaves 32 hexadecimal
  digits.\<close>

lemma UUID_init_hex32:
  assumes "str_replace (strip_chars (str_replace (str_replace s ''urn:'' '''') ''uuid:'' '''') ''{}'')
             ''-'' '''' = h"
    and "list_all is_hexdigit h" and "length h = 32"
  shows "\<exists>u. UUID_init s (Some 4) = Inr u"
proof -
  have "h \<noteq> []" using assms(3) by auto
  from py_int_hex[OF assms(2) this] obtain v where
    v: "py_int h 16 = Some v" "0 \<le> v" "v < 16 ^ length h" by blast
  have "(16::int) ^ 32 = 2 ^ 128" by simp
  then have "v < 2 ^ 128" using v(3) assms(3) by simp
  then show ?thesis using assms(1,3) v(1,2) by (simp add: UUID_init_def Let_def)
qed

lemma uuid_type_hex32:
  assumes "str_replace (strip_chars (str_replace (str_replace s ''urn:'' '''') ''uuid:'' '''') ''{}'')
             ''-'' '''' = h"
    and "list_all is_hexdigit h" and "length h = 32"
  shows "uuid_type s 4 = Inr s"
  using UUID_init_hex32[OF assms] by (auto simp: uuid_type_def)

lemma no_u_hex: "list_all is_hexdigit h \<Longrightarrow> CHR ''u'' \<notin> set h"
  using hexdigit_not(6) by (auto simp: list_all_iff)

lemma no_hyphen_hex: "list_all is_hexdigit h \<Longrightarrow> filter (\<lambda>x. x \<noteq> CHR ''-'') h = h"
  using hexdigit_not(3) by (auto simp: list_all_iff filter_id_conv)

lemma no_brace_hex: "list_all is_hexdigit h \<Longrightarrow> \<forall>x\<in>set h. \<not> x \<in> set ''{}''"
  using hexdigit_not(7,8) by (auto simp: list_all_iff)

lemma uuid_plain:
  assumes "list_all is_hexdigit h" and "length h = 32"
  shows "uuid_type h 4 = Inr h"
proof (rule uuid_type_hex32[OF _ assms])
  have 1: "str_replace (str_replace h ''urn:'' '''') ''uuid:'' '''' = h"
    using no_u_hex[OF assms(1)] by (simp add: str_replace_absent)
  show "str_replace (strip_chars (str_replace (str_replace h ''urn:'' '''') ''uuid:'' '''') ''{}'')
          ''-'' '''' = h"
    using no_brace_hex[OF assms(1)] no_hyphen_hex[OF assms(1)]
    by (simp only: 1 strip_chars_def strip_with_id str_replace_delete)
qed

lemma uuid_braces:
  assumes "list_all is_hexdigit h" and "length h = 32"
  shows "uuid_type (''{'' @ h @ ''}'') 4 = Inr (''{'' @ h @ ''}'')"
proof (rule uuid_type_hex32[OF _ assms])
  have "CHR ''u'' \<notin> set (''{'' @ h @ ''}'')" using no_u_hex[OF assms(1)] by simp
  then have 1: "str_replace (str_replace (''{'' @ h @ ''}'') ''urn:'' '''') ''uuid:'' ''''
                 = ''{'' @ h @ ''}''"
    by (simp add: str_replace_absent)
  have 2: "strip_chars (''{'' @ h @ ''}'') ''{}'' = h"
  proof -
    have ne: "h \<noteq> []" using assms(2) by auto
    have a: "\<forall>x\<in>set h. \<not> x \<in> set ''{}''" by (rule no_brace_hex[OF assms(1)])
    have b: "\<forall>x\<in>set ''{''. x \<in> set ''{}''" by simp
    have c: "\<forall>x\<in>set ''}''. x \<in> set ''{}''" by simp
    show ?thesis unfolding strip_chars_def by (rule strip_with_around[OF a b c ne])
  qed
  show "str_replace (strip_chars (str_replace (str_replace (''{'' @ h @ ''}'') ''urn:'' '''')
          ''uuid:'' '''') ''{}'') ''-'' '''' = h"
    using no_hyphen_hex[OF assms(1)] by (simp only: 1 2 str_replace_delete)
qed

lemma uuid_urn:
  assumes "list_all is_hexdigit h" and "length h = 32"
  shows "uuid_type (''urn:uuid:'' @ h) 4 = Inr (''urn:uuid:'' @ h)"
proof (rule uuid_type_hex32[OF _ assms])
  have a: "str_replace h ''urn:'' '''' = h" "str_replace h ''uuid:'' '''' = h"
    using no_u_hex[OF assms(1)] by (simp_all add: str_replace_absent)
  have 1: "str_replace (''urn:uuid:'' @ h) ''urn:'' '''' = ''uuid:'' @ h"
    using a(1) by (simp add: str_replace_Cons startswith_def)
  have 2: "str_replace (''uuid:'' @ h) ''uuid:'' '''' = h"
    using a(2) by (simp add: str_replace_Cons startswith_def)
  show "str_replace (strip_chars (str_replace (str_replace (''urn:uuid:'' @ h) ''urn:'' '''')
          ''uuid:'' '''') ''{}'') ''-'' '''' = h"
    using no_brace_hex[OF assms(1)] no_hyphen_hex[OF assms(1)]
    by (simp only: 1 2 strip_chars_def strip_with_id str_replace_delete)
qed


section \<open>Properties of the dispatcher\<close>

lemma emit_level: "e \<in> set (emit st l m) \<Longrightarrow> e = Emit l m \<and> l \<ge> effective_level st"
  by (auto simp: emit_def split: if_splits)

lemma emit_not_client [simp]: "\<not> list_ex client_event (emit st l m)"
  by (simp add: emit_def)

lemma apply_verbosity_not_client [simp]: "\<not> list_ex client_event (fst (apply_verbosity v st))"
  by (simp add: apply_verbosity_def)

lemma missing_key_text:
  "str_in (''Missing '' @ [CHR 0x27] @ ''PICTERRA_API_KEY'' @ [CHR 0x27] @ '' environment variable'')
          (red missing_key_message)"
  by (simp add: red_def missing_key_message_def startswith_def)

lemma try_body_emits:
  "Emit l m \<in> set (snd (try_body client st c ps opts)) \<Longrightarrow> effective_level st \<le> l"
  by (auto simp: try_body_def Let_def dest: emit_level
           split: option.splits sum.splits py_result.splits)

lemma handle_raised_emits:
  "Emit l m \<in> set (snd (handle_raised st raised)) \<Longrightarrow> effective_level st \<le> l"
  by (auto simp: handle_raised_def dest: emit_level split: option.splits if_splits)

lemma try_body_emits':
  "try_body client st c ps opts = (raised, ev4) \<Longrightarrow> Emit l m \<in> set ev4 \<Longrightarrow> effective_level st \<le> l"
  using try_body_emits[of l m client st c ps opts] by simp

lemma handle_raised_emits':
  "handle_raised st raised = (left, ev5) \<Longrightarrow> Emit l m \<in> set ev5 \<Longrightarrow> effective_level st \<le> l"
  using handle_raised_emits[of l m st raised] by simp

lemma handle_command_shape:
  assumes "handle_command env cm client st0 opts = (r, ev, st)"
  shows "st = snd (apply_verbosity (opt_verbose opts) st0)
         \<and> (\<exists>rest. ev = fst (apply_verbosity (opt_verbose opts) st0) @ rest
               \<and> (\<forall>l m. Emit l m \<in> set rest \<longrightarrow> effective_level st \<le> l))"
proof -
  obtain ev0 st1 where av: "apply_verbosity (opt_verbose opts) st0 = (ev0, st1)"
    by (cases "apply_verbosity (opt_verbose opts) st0")
  show ?thesis
    using assms av
    by (auto simp: handle_command_def Let_def
             dest!: emit_level dest: try_body_emits' handle_raised_emits'
             split: if_splits sum.splits option.splits prod.splits)
qed

lemma apply_verbosity_level:
  "logger_level (snd (apply_verbosity v st0)) =
     (if 3 \<le> v then DEBUG else if v = 2 then INFO else if v = 1 then WARNING else logger_level st0)"
  "root_level (snd (apply_verbosity v st0)) = root_level st0"
  "v \<noteq> 0 \<Longrightarrow> fst (apply_verbosity v st0) = [SetLevel (logger_level (snd (apply_verbosity v st0)))]"
  "v = 0 \<Longrightarrow> apply_verbosity v st0 = ([], st0)"
  by (auto simp: apply_verbosity_def)









section \<open>Properties of the registry builder\<close>

lemma command_names_simps [simp]:
  "command_names [] = []"
  "command_names ((name, fn) # ms) =
     (if startswith name ''_'' then command_names ms else api_arg_to_cmd_arg name # command_names ms)"
  by (simp_all add: command_names_def public_members_def)

lemma add_parameters_arguments:
  "add_parameters lines diff ps (taken, args, entry) = Inr (taken', args', entry') \<Longrightarrow>
   \<exists>new. args' = args @ new
     \<and> list_all2 (\<lambda>p a. arg_dest a = p_name p \<and> arg_flags a = name_or_flags diff (p_name p)
                        \<and> build_args lines p = Inr (arg_args a)) ps new"
proof (induction ps arbitrary: taken args entry)
  case Nil
  then show ?case by simp
next
  case (Cons p ps)
  from Cons.prems obtain sa where sa: "build_args lines p = Inr sa"
    by (auto split: sum.splits)
  let ?a = "\<lparr> arg_flags = name_or_flags diff (p_name p), arg_dest = p_name p, arg_args = sa \<rparr>"
  from Cons.prems sa have
    "add_parameters lines diff ps
       (taken @ option_strings ?a, args @ [?a], dict_set entry (p_name p) (marker_of sa))
     = Inr (taken', args', entry')"
    by (auto simp: Let_def split: if_splits)
  from Cons.IH[OF this] obtain new where
    "args' = (args @ [?a]) @ new"
    "list_all2 (\<lambda>p a. arg_dest a = p_name p \<and> arg_flags a = name_or_flags diff (p_name p)
                        \<and> build_args lines p = Inr (arg_args a)) ps new"
    by blast
  then show ?case using sa by (intro exI[of _ "?a # new"]) simp
qed

lemma list_all2_right: "list_all2 P xs ys \<Longrightarrow> y \<in> set ys \<Longrightarrow> \<exists>x\<in>set xs. P x y"
  by (induction rule: list_all2_induct) auto

lemma build_command_name:
  "build_command existing name fn = Inr (sc, entry) \<Longrightarrow>
     sc_name sc = api_arg_to_cmd_arg name \<and> sc_name sc \<notin> set existing"
  by (auto simp: build_command_def Let_def split: if_splits sum.splits)

lemma build_command_arguments:
  assumes "build_command existing name fn = Inr (sc, entry)"
  shows "\<forall>a \<in> set (sc_arguments sc). \<exists>p \<in> set (fn_parameters fn).
           arg_dest a = p_name p \<and> build_args (docstring_lines (fn_doc fn)) p = Inr (arg_args a)"
proof -
  let ?ps = "filter (\<lambda>p. p_name p \<noteq> ''self'') (fn_parameters fn)"
  from assms obtain diff taken where
    "add_parameters (docstring_lines (fn_doc fn)) diff ?ps (reserved_option_strings, [], [])
       = Inr (taken, sc_arguments sc, entry)"
    by (auto simp: build_command_def Let_def split: if_splits sum.splits)
  from add_parameters_arguments[OF this] have
    "list_all2 (\<lambda>p a. arg_dest a = p_name p \<and> arg_flags a = name_or_flags diff (p_name p)
        \<and> build_args (docstring_lines (fn_doc fn)) p = Inr (arg_args a)) ?ps (sc_arguments sc)"
    by simp
  from list_all2_right[OF this] show ?thesis by fastforce
qed

lemma build_members_origin:
  "build_members ms (subs, cm) = Inr (subs', cm') \<Longrightarrow> sc \<in> set subs' \<Longrightarrow>
     sc \<in> set subs \<or> (\<exists>(name, fn) \<in> set ms. \<exists>ex entry.
        \<not> startswith name ''_'' \<and> build_command ex name fn = Inr (sc, entry))"
proof (induction ms arbitrary: subs cm)
  case Nil
  then show ?case by simp
next
  case (Cons m ms)
  obtain name fn where m: "m = (name, fn)" by (cases m)
  show ?case
  proof (cases "startswith name ''_''")
    case True
    with Cons.prems m have "build_members ms (subs, cm) = Inr (subs', cm')" by simp
    from Cons.IH[OF this Cons.prems(2)] show ?thesis by auto
  next
    case False
    with Cons.prems m obtain sc0 entry where
      bc: "build_command (map sc_name subs) name fn = Inr (sc0, entry)"
      and rest: "build_members ms (subs @ [sc0], cm(sc_name sc0 \<mapsto> entry)) = Inr (subs', cm')"
      by (auto split: sum.splits)
    from Cons.IH[OF rest Cons.prems(2)] show ?thesis
      using bc False m by auto
  qed
qed

lemma build_args_required:
  "build_args lines p = Inr sa \<Longrightarrow>
     sa_required sa = (p_default p = None) \<and> sa_default sa = p_default p"
  by (auto simp: build_args_def Let_def split: sum.splits if_splits)

lemma build_create_detector:
  "\<exists>cm'. build_registry [(''create_detector'', create_detector)] Map.empty
           = Inr ([create_detector_command], cm')"
proof -
  have "map_sum id fst (build_registry [(''create_detector'', create_detector)] Map.empty)
        = Inr [create_detector_command]"
    by code_simp
  then show ?thesis
    by (cases "build_registry [(''create_detector'', create_detector)] Map.empty") auto
qed










lemma is_optional_Optional:
  assumes "inner \<noteq> TNone" and "args = [inner, TNone] \<or> args = [TNone, inner]"
  shows "is_optional (TUnion args) = Inr (Some inner)"
  using assms(2)
proof
  assume "args = [inner, TNone]"
  then show ?thesis using assms(1) by (simp add: is_optional_def)
next
  assume "args = [TNone, inner]"
  then show ?thesis using assms(1) by (simp add: is_optional_def)
qed

lemma is_Optional_bool_iff:
  assumes "inner \<noteq> TNone" and "args = [inner, TNone] \<or> args = [TNone, inner]"
  shows "is_Optional_bool (TUnion args) = (inner = TBool)"
proof -
  have "set args = {inner, TNone}" using assms(2) by auto
  moreover have "({inner, TNone} = {TBool, TNone}) = (inner = TBool)"
    using assms(1) by (simp add: doubleton_eq_iff)
  ultimately show ?thesis by (simp del: set_simps)
qed


lemma infer_type_plain:
  assumes "inner \<in> {TBool, TInt, TFloat, TStr}"
  shows "infer_type param inner
           = (if inner = TBool then Inr (True, None, None)
              else if inner = TStr \<and> endswith param ''_id'' then Inr (False, Some UuidType, None)
              else Inr (False, Some (TypeOf inner), None))"
proof -
  from assms have "inner = TBool \<or> inner = TInt \<or> inner = TFloat \<or> inner = TStr" by simp
  then show ?thesis
    by (elim disjE) (simp_all add: infer_type_def)
qed

lemma infer_type_Optional:
  assumes "inner \<in> {TBool, TInt, TFloat, TStr}"
    and "args = [inner, TNone] \<or> args = [TNone, inner]"
  shows "infer_type param (TUnion args)
           = (if inner = TBool then Inr (True, None, None)
              else Inr (False, Some (TypeOf inner), None))"
proof -
  have ne: "inner \<noteq> TNone" using assms(1) by auto
  have a: "TUnion args \<noteq> Empty" "TUnion args \<noteq> TBool" "TUnion args \<noteq> TStr"
    "TUnion args \<notin> {TInt, TFloat, TStr}" by simp_all
  show ?thesis
    unfolding infer_type_def
    by (simp only: a is_optional_Optional[OF ne assms(2)] is_Optional_bool_iff[OF ne assms(2)]
          simp_thms if_False if_True sum.case option.case split: if_split)
qed






lemma isinstance_str_VStr: "list_all isinstance_str (map VStr ts)"
  by (induction ts) auto


lemma describe_choices_origin:
  assumes "describe param lines ty choices0 = Inr (text, choices)"
    and "\<not> truthy choices0" and "truthy choices"
  shows "\<exists>line suffix g. find (\<lambda>l. startswith l param) lines = Some line
           \<and> 2 \<le> length (split_on CHR '':'' line)
           \<and> type_suffix ty = Inr suffix
           \<and> one_of_match (strip (split_on CHR '':'' line ! 1) @ suffix) = Some g
           \<and> text = Some (strip (split_on CHR '':'' line ! 1) @ suffix)
           \<and> choices = Some (map VStr (help_choices g))"
  using assms
  by (auto simp: describe_def Let_def split: option.splits if_splits sum.splits)

lemma set_strip_with: "set (strip_with p s) \<subseteq> set s"
  unfolding strip_with_def
  by (metis set_dropWhileD set_rev subsetI)

lemma last_dropWhile_ne: "dropWhile p xs \<noteq> [] \<Longrightarrow> last (dropWhile p xs) = last xs"
  by (induction xs) (auto split: if_splits)

lemma strip_with_idem: "strip_with p (strip_with p s) = strip_with p s"
proof -
  define u where "u = dropWhile p s"
  define v where "v = dropWhile p (rev u)"
  have r: "strip_with p s = rev v" by (simp add: strip_with_def u_def v_def)
  have 1: "dropWhile p v = v" by (simp add: v_def)
  have 2: "dropWhile p (rev v) = rev v"
  proof (cases "v = []")
    case True
    then show ?thesis by simp
  next
    case False
    then have "last v = last (rev u)" unfolding v_def by (rule last_dropWhile_ne)
    moreover have "u \<noteq> []" using False v_def by auto
    ultimately have "last v = hd u" by (simp add: last_rev)
    moreover have "\<not> p (hd u)" using \<open>u \<noteq> []\<close> unfolding u_def by (rule hd_dropWhile)
    ultimately have "\<not> p (hd (rev v))" using False by (simp add: hd_rev)
    then show ?thesis using False by (cases "rev v") auto
  qed
  show ?thesis unfolding r by (simp add: strip_with_def 1 2)
qed

lemma split_on_subset: "w \<in> set (split_on c s) \<Longrightarrow> set w \<subseteq> set s"
proof -
  assume "w \<in> set (split_on c s)"
  then have "set w \<subseteq> set (concat (split_on c s))" by auto
  then show ?thesis by (auto simp: concat_split_on)
qed

lemma help_choices_tokens:
  assumes "t \<in> set (help_choices g)"
  shows "CHR 0x27 \<notin> set t \<and> strip t = t"
proof -
  from assms obtain w where w: "w \<in> set (split_on CHR '','' (str_replace g [CHR 0x27] []))"
    and t: "t = strip w"
    by (auto simp: help_choices_def)
  have "set w \<subseteq> set (filter (\<lambda>x. x \<noteq> CHR 0x27) g)"
    using split_on_subset[OF w] by (simp add: str_replace_delete)
  then have "CHR 0x27 \<notin> set w" by auto
  then have "CHR 0x27 \<notin> set t" using set_strip_with[of isspace w] t by (auto simp: strip_def)
  moreover have "strip t = t" unfolding t strip_def by (rule strip_with_idem)
  ultimately show ?thesis by simp
qed

lemma build_args_choices_origin:
  assumes "build_args lines p = Inr sa"
    and "infer_type (p_name p) (p_annotation p) = Inr (action, ty, choices0)"
    and "\<not> truthy choices0" and "sa_choices sa = Some cs"
  shows "\<exists>line suffix g. find (\<lambda>l. startswith l (p_name p)) lines = Some line
           \<and> 2 \<le> length (split_on CHR '':'' line)
           \<and> type_suffix ty = Inr suffix
           \<and> one_of_match (strip (split_on CHR '':'' line ! 1) @ suffix) = Some g
           \<and> sa_help sa = Some (strip (split_on CHR '':'' line ! 1) @ suffix)
           \<and> sa_type sa = ty
           \<and> cs = map VStr (help_choices g)"
proof -
  from assms(1,2) obtain body choices where
    d: "describe (p_name p) lines ty choices0 = Inr (body, choices)"
    and sa: "sa_choices sa = (if truthy choices then choices else None)"
       "sa_help sa = body" "sa_type sa = ty"
    by (auto simp: build_args_def Let_def split: sum.splits if_splits)
  from sa(1) assms(4) have t: "truthy choices" and c: "choices = Some cs"
    by (auto split: if_splits)
  from describe_choices_origin[OF d assms(3) t] c sa(2,3) show ?thesis by auto
qed

section \<open>Properties of the parsing of options\<close>











section \<open>The claims\<close>

text \<open>
  C1.  For every command (every namespace, registry and client), when the variable
  \<open>PICTERRA_API_KEY\<close> is not in the environment as the dispatcher runs, the
  dispatcher leaves through \<open>sys.exit\<close> with a text: the process status is not 0
  and the text contains \<open>Missing 'PICTERRA_API_KEY' environment variable\<close>.
  Up to there no client object is constructed, no method is looked up and no method
  is called.
\<close>

theorem missing_key_exits_first:
  assumes "env ''PICTERRA_API_KEY'' = None"
  shows "\<exists>ev st. handle_command env cm client st0 opts
                   = (Some (SystemExit (CodeStr (red missing_key_message))), ev, st)
           \<and> exit_status (Some (SystemExit (CodeStr (red missing_key_message)))) \<noteq> 0
           \<and> str_in (''Missing '' @ [CHR 0x27] @ ''PICTERRA_API_KEY'' @ [CHR 0x27]
                       @ '' environment variable'') (red missing_key_message)
           \<and> \<not> list_ex client_event ev"
proof -
  obtain ev0 st where av: "apply_verbosity (opt_verbose opts) st0 = (ev0, st)"
    by (cases "apply_verbosity (opt_verbose opts) st0")
  have "\<not> list_ex client_event ev0"
    using apply_verbosity_not_client[of "opt_verbose opts" st0] av by simp
  then show ?thesis
    using assms av missing_key_text by (simp add: handle_command_def)
qed

theorem missing_key_exits_first_witness:
  "fst (handle_command Map.empty Map.empty
          \<lparr> cl_new = (\<lambda>e. None), cl_getattr = (\<lambda>n. None) \<rparr> initial_log
          \<lparr> opt_command = VStr ''list-detectors'', opt_verbose = 0, opt_attrs = [] \<rparr>)
     = Some (SystemExit (CodeStr (red missing_key_message)))
   \<and> exit_status (Some (SystemExit (CodeStr (red missing_key_message)))) = 1"
proof -
  have "Map.empty ''PICTERRA_API_KEY'' = (None :: string option)" by simp
  from missing_key_exits_first[OF this, of "Map.empty"
      "\<lparr> cl_new = (\<lambda>e. None), cl_getattr = (\<lambda>n. None) \<rparr>" initial_log
      "\<lparr> opt_command = VStr ''list-detectors'', opt_verbose = 0, opt_attrs = [] \<rparr>"]
  show ?thesis by auto
qed







text \<open>
  C4.  For a parameter declared as an optional wrapper (in either order of the
  arguments) around \<open>bool\<close>, \<open>int\<close>, \<open>float\<close> or \<open>str\<close>, the inference unwraps
  the optional: an optional \<open>bool\<close> is a boolean toggle, and otherwise the inner
  type object itself becomes the coercion.  This is what the inner type alone would
  get, except for a string parameter whose name ends in \<open>_id\<close>: declared optional
  it gets plain \<open>str\<close>, where the plain string gets \<open>uuid_type\<close>.
\<close>

theorem optional_unwrapped:
  assumes "inner \<in> {TBool, TInt, TFloat, TStr}"
    and "args = [inner, TNone] \<or> args = [TNone, inner]"
  shows "infer_type param (TUnion args)
           = (if inner = TBool then Inr (True, None, None)
              else Inr (False, Some (TypeOf inner), None))
         \<and> (\<not> (inner = TStr \<and> endswith param ''_id'')
              \<longrightarrow> infer_type param (TUnion args) = infer_type param inner)
         \<and> (inner = TStr \<and> endswith param ''_id''
              \<longrightarrow> infer_type param (TUnion args) = Inr (False, Some (TypeOf TStr), None)
                  \<and> infer_type param inner = Inr (False, Some UuidType, None))"
proof -
  note 1 = infer_type_Optional[OF assms, of param]
  note 2 = infer_type_plain[OF assms(1), of param]
  have 3: "\<not> (inner = TStr \<and> endswith param ''_id'')
             \<longrightarrow> infer_type param (TUnion args) = infer_type param inner"
    unfolding 1 2 by simp
  have 4: "inner = TStr \<and> endswith param ''_id''
             \<longrightarrow> infer_type param (TUnion args) = Inr (False, Some (TypeOf TStr), None)
                 \<and> infer_type param inner = Inr (False, Some UuidType, None)"
    unfolding 1 2 by simp
  from 1 3 4 show ?thesis by (intro conjI)
qed

theorem optional_unwrapped_witness:
  "infer_type ''page_number'' (TUnion [TInt, TNone]) = Inr (False, Some (TypeOf TInt), None)
   \<and> infer_type ''page_number'' (TUnion [TInt, TNone]) = infer_type ''page_number'' TInt"
proof -
  have 1: "TInt \<in> {TBool, TInt, TFloat, TStr}" by simp
  have 2: "[TInt, TNone] = [TInt, TNone] \<or> [TInt, TNone] = [TNone, TInt]" by simp
  have 3: "\<not> (TInt = TStr \<and> endswith ''page_number'' ''_id'')" by simp
  note t = optional_unwrapped[OF 1 2, of "''page_number''"]
  from t have a: "infer_type ''page_number'' (TUnion [TInt, TNone])
                  = Inr (False, Some (TypeOf TInt), None)" by simp
  from t 3 have b: "infer_type ''page_number'' (TUnion [TInt, TNone])
                    = infer_type ''page_number'' TInt" by blast
  from a b show ?thesis by (rule conjI)
qed

text \<open>
  An optional string named \<open>folder_id\<close> is not given the identifier coercion that
  the same name gets when declared a plain string.
\<close>

theorem optional_identifier_not_validated:
  "infer_type ''folder_id'' (TUnion [TStr, TNone]) = Inr (False, Some (TypeOf TStr), None)
   \<and> infer_type ''folder_id'' TStr = Inr (False, Some UuidType, None)"
proof -
  have e: "endswith ''folder_id'' ''_id''" by (simp add: endswith_def startswith_def)
  have 1: "TStr \<in> {TBool, TInt, TFloat, TStr}" by simp
  have 2: "[TStr, TNone] = [TStr, TNone] \<or> [TStr, TNone] = [TNone, TStr]" by simp
  show ?thesis
    using infer_type_Optional[OF 1 2, of "''folder_id''"] infer_type_plain[OF 1, of "''folder_id''"] e
    by simp
qed




text \<open>
  C6.  Every argument of every sub-command of a built registry comes from a parameter
  of a member's signature, and it is marked required exactly when that parameter has
  no default; the descriptor holds a default exactly when the parameter has one (the
  same value), so a default is present exactly when the argument is not required.
  The declared type plays no part: with any other annotation (and any docstring) in
  its place the required mark is the same.
\<close>

theorem required_iff_no_default:
  assumes "build_registry members cm = Inr (subparsers, cm')"
    and "sc \<in> set subparsers" and "a \<in> set (sc_arguments sc)"
  shows "\<exists>name fn p. (name, fn) \<in> set members \<and> sc_name sc = api_arg_to_cmd_arg name
           \<and> p \<in> set (fn_parameters fn) \<and> p_name p = arg_dest a
           \<and> sa_required (arg_args a) = (p_default p = None)
           \<and> sa_default (arg_args a) = p_default p
           \<and> (sa_default (arg_args a) \<noteq> None) = (\<not> sa_required (arg_args a))
           \<and> (\<forall>lines t sa. build_args lines (p\<lparr>p_annotation := t\<rparr>) = Inr sa
                  \<longrightarrow> sa_required sa = sa_required (arg_args a))"
proof -
  from build_members_origin[OF assms(1)[unfolded build_registry_def] assms(2)]
  obtain name fn ex entry where
    mem: "(name, fn) \<in> set members"
    and bc: "build_command ex name fn = Inr (sc, entry)"
    by auto
  from build_command_arguments[OF bc] assms(3) obtain p where
    p: "p \<in> set (fn_parameters fn)" "arg_dest a = p_name p"
    and ba: "build_args (docstring_lines (fn_doc fn)) p = Inr (arg_args a)"
    by blast
  note r = build_args_required[OF ba]
  have "\<forall>lines t sa. build_args lines (p\<lparr>p_annotation := t\<rparr>) = Inr sa
          \<longrightarrow> sa_required sa = sa_required (arg_args a)"
    using r by (auto dest!: build_args_required)
  then show ?thesis
    using mem build_command_name[OF bc] p r by (intro exI[of _ name] exI[of _ fn] exI[of _ p]) auto
qed

theorem required_iff_no_default_witness:
  "\<exists>p. p \<in> set (fn_parameters create_detector) \<and> p_name p = ''name''
       \<and> p_annotation p = TUnion [TStr, TNone]
       \<and> sa_required (arg_args (hd (sc_arguments create_detector_command))) = (p_default p = None)
       \<and> sa_required (arg_args (hd (sc_arguments create_detector_command)))"
proof -
  from build_create_detector obtain cm' where
    b: "build_registry [(''create_detector'', create_detector)] Map.empty
        = Inr ([create_detector_command], cm')" by blast
  have s: "create_detector_command \<in> set [create_detector_command]" by simp
  have a: "hd (sc_arguments create_detector_command) \<in> set (sc_arguments create_detector_command)"
    by (simp add: create_detector_command_def)
  from required_iff_no_default[OF b s a] obtain name fn p where
    "(name, fn) \<in> set [(''create_detector'', create_detector)]"
    "p \<in> set (fn_parameters fn)" "p_name p = arg_dest (hd (sc_arguments create_detector_command))"
    "sa_required (arg_args (hd (sc_arguments create_detector_command))) = (p_default p = None)"
    by (elim exE conjE) (rule that, assumption+)
  then show ?thesis
    by (intro exI[of _ p]) (auto simp: create_detector_def create_detector_command_def)
qed

text \<open>
  C7.  The count of \<open>-v\<close> is applied to the level of the module's logger before
  anything else the dispatcher does: 1 sets \<open>WARNING\<close>, 2 sets \<open>INFO\<close>, 3 or more
  sets \<open>DEBUG\<close>, and that call is the first event; 0 leaves the logging state as it
  was.  Every record the dispatcher emits has at least the effective level that
  results.
\<close>

theorem verbosity_applied_first:
  assumes "handle_command env cm client st0 opts = (r, ev, st)"
  shows "logger_level st =
           (if 3 \<le> opt_verbose opts then DEBUG
            else if opt_verbose opts = 2 then INFO
            else if opt_verbose opts = 1 then WARNING
            else logger_level st0)
         \<and> root_level st = root_level st0
         \<and> (opt_verbose opts = 0 \<longrightarrow> st = st0)
         \<and> (opt_verbose opts \<noteq> 0 \<longrightarrow> (\<exists>rest. ev = SetLevel (logger_level st) # rest))
         \<and> (\<forall>l m. Emit l m \<in> set ev \<longrightarrow> effective_level st \<le> l)"
proof -
  let ?v = "opt_verbose opts"
  from handle_command_shape[OF assms] obtain rest where
    st: "st = snd (apply_verbosity ?v st0)"
    and ev: "ev = fst (apply_verbosity ?v st0) @ rest"
    and emits: "\<forall>l m. Emit l m \<in> set rest \<longrightarrow> effective_level st \<le> l"
    by blast
  have 1: "logger_level st =
           (if 3 \<le> ?v then DEBUG else if ?v = 2 then INFO
            else if ?v = 1 then WARNING else logger_level st0)"
    and 2: "root_level st = root_level st0"
    unfolding st by (rule apply_verbosity_level)+
  have 3: "?v = 0 \<longrightarrow> st = st0"
    unfolding st by (simp add: apply_verbosity_level(4))
  have 4: "?v \<noteq> 0 \<longrightarrow> (\<exists>rest. ev = SetLevel (logger_level st) # rest)"
    unfolding st ev by (simp add: apply_verbosity_level(3))
  have "\<forall>l m. Emit l m \<in> set (fst (apply_verbosity ?v st0)) \<longrightarrow> effective_level st \<le> l"
    by (auto simp: apply_verbosity_def)
  then have 5: "\<forall>l m. Emit l m \<in> set ev \<longrightarrow> effective_level st \<le> l"
    using emits unfolding ev by auto
  from 1 2 3 4 5 show ?thesis by blast
qed

theorem verbosity_applied_first_witness:
  "logger_level (snd (snd (handle_command Map.empty Map.empty
        \<lparr> cl_new = (\<lambda>e. None), cl_getattr = (\<lambda>n. None) \<rparr> initial_log
        \<lparr> opt_command = VStr ''list-detectors'', opt_verbose = 2, opt_attrs = [] \<rparr>))) = INFO"
proof -
  let ?h = "handle_command Map.empty Map.empty
        \<lparr> cl_new = (\<lambda>e. None), cl_getattr = (\<lambda>n. None) \<rparr> initial_log
        \<lparr> opt_command = VStr ''list-detectors'', opt_verbose = 2, opt_attrs = [] \<rparr>"
  have "?h = (fst ?h, fst (snd ?h), snd (snd ?h))" by simp
  from verbosity_applied_first[OF this] show ?thesis by simp
qed

text \<open>
  With a count of 0 the dispatcher is not silent: from the initial configuration the
  effective level is \<open>CRITICAL\<close>, and the record of an unclassified exception, which
  has that level, is emitted.
\<close>

theorem verbosity_zero_not_silent:
  "handle_command [''PICTERRA_API_KEY'' \<mapsto> ''xxxx''] [''list-detectors'' \<mapsto> []]
      \<lparr> cl_new = (\<lambda>e. None),
        cl_getattr = (\<lambda>n. Some (\<lambda>args. Inl (OtherException ''RuntimeError'' ''boom''))) \<rparr>
      initial_log
      \<lparr> opt_command = VStr ''list-detectors'', opt_verbose = 0, opt_attrs = [] \<rparr>
   = (None,
      [NewClient, GetMethod ''list_detectors'', CallMethod ''list_detectors'' [],
       Emit CRITICAL (MsgException (OtherException ''RuntimeError'' ''boom''))],
      initial_log)"
  by (simp add: handle_command_def apply_verbosity_def emit_def effective_level_def initial_log_def
        lookup_command_def try_body_def handle_raised_def cmd_arg_to_api_arg_def Let_def
        str_replace_Cons str_replace_Nil startswith_def
        DEBUG_def INFO_def ERROR_def CRITICAL_def)



text \<open>
  C9.  Whenever the identifier validator \<open>uuid_type\<close> succeeds, it returns its input
  text unchanged (nothing is put into lower case or into the hyphenated form).  It
  accepts what the constructor of the library accepts: for every text \<open>h\<close> of 32
  hexadecimal digits in either case, whatever its version and variant digits, the
  text without hyphens, the text in braces and the text after \<open>urn:uuid:\<close> are
  accepted and returned as they are.
\<close>

theorem uuid_type_returns_input:
  "(uuid_type s version = Inr r \<longrightarrow> r = s)
   \<and> (list_all is_hexdigit h \<and> length h = 32 \<longrightarrow>
        uuid_type h 4 = Inr h
        \<and> uuid_type (''{'' @ h @ ''}'') 4 = Inr (''{'' @ h @ ''}'')
        \<and> uuid_type (''urn:uuid:'' @ h) 4 = Inr (''urn:uuid:'' @ h))"
proof -
  have "uuid_type s version = Inr r \<longrightarrow> r = s"
    by (auto simp: uuid_type_def split: sum.splits py_exc.splits)
  then show ?thesis using uuid_plain uuid_braces uuid_urn by blast
qed

theorem uuid_type_returns_input_witness:
  "uuid_type ''ABCDEF0123456789abcdef0123456789'' 4 = Inr ''ABCDEF0123456789abcdef0123456789''
   \<and> uuid_type (''{'' @ ''ABCDEF0123456789abcdef0123456789'' @ ''}'') 4
       = Inr (''{'' @ ''ABCDEF0123456789abcdef0123456789'' @ ''}'')
   \<and> uuid_type (''urn:uuid:'' @ ''ABCDEF0123456789abcdef0123456789'') 4
       = Inr (''urn:uuid:'' @ ''ABCDEF0123456789abcdef0123456789'')"
proof -
  have h: "list_all is_hexdigit ''ABCDEF0123456789abcdef0123456789''
           \<and> length ''ABCDEF0123456789abcdef0123456789'' = 32"
    by (simp add: is_hexdigit_def)
  from conjunct2[OF uuid_type_returns_input[of "[]" 4 "[]" "''ABCDEF0123456789abcdef0123456789''"]] h
  show ?thesis by (rule mp)
qed

text \<open>
  C10.  Whenever a choice set is recorded for a parameter whose declared type gave
  none, it was read from the help text by the pattern: the recorded choices are the
  tokens of group 1, split at the commas, with the single quotes removed and the
  white space stripped, each one a string.  This holds whatever coercion was set for
  the parameter: for an \<open>int\<close> or \<open>float\<close> parameter the choices are strings too,
  none of them an \<open>int\<close> or a \<open>float\<close>.
\<close>

theorem help_choices_are_strings:
  assumes "build_args lines p = Inr sa"
    and "infer_type (p_name p) (p_annotation p) = Inr (action, ty, choices0)"
    and "\<not> truthy choices0" and "sa_choices sa = Some cs"
  shows "\<exists>line suffix g. find (\<lambda>l. startswith l (p_name p)) lines = Some line
           \<and> type_suffix ty = Inr suffix
           \<and> one_of_match (strip (split_on CHR '':'' line ! 1) @ suffix) = Some g
           \<and> sa_type sa = ty
           \<and> cs = map VStr (map strip (split_on CHR '','' (str_replace g [CHR 0x27] [])))
           \<and> list_all isinstance_str cs
           \<and> \<not> list_ex isinstance_int cs \<and> \<not> list_ex isinstance_float cs
           \<and> (\<forall>c \<in> set cs. \<exists>t. c = VStr t \<and> CHR 0x27 \<notin> set t \<and> strip t = t)"
proof -
  from build_args_choices_origin[OF assms] obtain line suffix g where
    f: "find (\<lambda>l. startswith l (p_name p)) lines = Some line"
    and s: "type_suffix ty = Inr suffix"
    and m: "one_of_match (strip (split_on CHR '':'' line ! 1) @ suffix) = Some g"
    and ty: "sa_type sa = ty"
    and cs: "cs = map VStr (help_choices g)"
    by blast
  have 1: "cs = map VStr (map strip (split_on CHR '','' (str_replace g [CHR 0x27] [])))"
    using cs by (simp add: help_choices_def)
  have 2: "list_all isinstance_str cs" unfolding cs by (rule isinstance_str_VStr)
  have 3: "\<not> list_ex isinstance_int cs" "\<not> list_ex isinstance_float cs"
    unfolding cs by (auto simp: list_ex_iff)
  have 4: "\<forall>c \<in> set cs. \<exists>t. c = VStr t \<and> CHR 0x27 \<notin> set t \<and> strip t = t"
    unfolding cs using help_choices_tokens by auto
  from f s m ty 1 2 3 4 show ?thesis by blast
qed

theorem help_choices_are_strings_witness:
  "build_args [''count: one of (1, 2, 3)''] count_param
     = Inr \<lparr> sa_required = False, sa_default = Some (VInt 1), sa_action = False,
             sa_type = Some (TypeOf TInt), sa_help = Some ''one of (1, 2, 3) [int]'',
             sa_choices = Some [VStr ''1'', VStr ''2'', VStr ''3''] \<rparr>
   \<and> \<not> list_ex isinstance_int [VStr ''1'', VStr ''2'', VStr ''3'']"
proof -
  let ?sa = "\<lparr> sa_required = False, sa_default = Some (VInt 1), sa_action = False,
             sa_type = Some (TypeOf TInt), sa_help = Some ''one of (1, 2, 3) [int]'',
             sa_choices = Some [VStr ''1'', VStr ''2'', VStr ''3''] \<rparr>"
  have b: "build_args [''count: one of (1, 2, 3)''] count_param = Inr ?sa"
    by code_simp
  have i: "infer_type (p_name count_param) (p_annotation count_param)
           = Inr (False, Some (TypeOf TInt), None)"
    by (simp add: count_param_def infer_type_def)
  have t: "\<not> truthy None" by (simp add: truthy_def)
  have c: "sa_choices ?sa = Some [VStr ''1'', VStr ''2'', VStr ''3'']" by simp
  from help_choices_are_strings[OF b i t c]
  have "\<not> list_ex isinstance_int [VStr ''1'', VStr ''2'', VStr ''3'']" by blast
  with b show ?thesis by (rule conjI)
qed

end
